theory Spec2Isabelle
  imports Main
begin

section \<open>The transaction table of generate_tx_for_signing.py\<close>

text \<open>
  A Python \<open>str\<close> is modelled as a \<open>string\<close> holding its UTF-8 bytes. Every \<open>str\<close>
  of the table is ASCII, where bytes and code points coincide; the only non-ASCII text
  of the script are the pictographs of some printed headlines, which are written
  out as their UTF-8 bytes.
\<close>

definition CONTRACT_ADDRESS :: string where
  "CONTRACT_ADDRESS = ''0x8B173c2E4C84b4bdD8c656F3d47Bc4259594Bd48''"

text \<open>An entry of a network's \<open>"transactions"\<close> list: a dict with the keys
  \<open>"token"\<close> and \<open>"data"\<close>.\<close>

record tx =
  token :: string
  data :: string

text \<open>The value stored for a network key: a dict with the keys \<open>"chainId"\<close>,
  \<open>"name"\<close> and \<open>"transactions"\<close>.\<close>

record network_data =
  chainId :: int
  name :: string
  transactions :: "tx list"

text \<open>\<open>TRANSACTIONS\<close> is a dict literal; a Python dict iterates in insertion order, so
  it is an association list in the order of the literal.\<close>

definition TRANSACTIONS :: "(string \<times> network_data) list" where
  "TRANSACTIONS =
    [(''arbitrum'', \<lparr>chainId = 42161, name = ''Arbitrum One'', transactions =
        [\<lparr>token = ''ETH'',
          data = ''0xeb0835bf0000000000000000000000000000000000000000000000000000000000000000''\<rparr>,
         \<lparr>token = ''USDC'',
          data = ''0xeb0835bf000000000000000000000000af88d065e77c8cc2239327c5edb3a432268e5831''\<rparr>,
         \<lparr>token = ''USDT'',
          data = ''0xeb0835bf000000000000000000000000fd086bc7cd5c481dcc9c85ebe478a1c0b69fcbb9''\<rparr>]\<rparr>),
     (''base'', \<lparr>chainId = 8453, name = ''Base'', transactions =
        [\<lparr>token = ''ETH'',
          data = ''0xeb0835bf0000000000000000000000000000000000000000000000000000000000000000''\<rparr>,
         \<lparr>token = ''USDC'',
          data = ''0xeb0835bf000000000000000000000000833589fcd6edb6e08f4c7c32d4f71b54bda02913''\<rparr>,
         \<lparr>token = ''USDT'',
          data = ''0xeb0835bf000000000000000000000000fde4c96c8593536e31f229ea8f37b2ada2699bb2''\<rparr>]\<rparr>),
     (''optimism'', \<lparr>chainId = 10, name = ''Optimism'', transactions =
        [\<lparr>token = ''ETH'',
          data = ''0xeb0835bf0000000000000000000000000000000000000000000000000000000000000000''\<rparr>,
         \<lparr>token = ''USDC'',
          data = ''0xeb0835bf0000000000000000000000000b2c639c533813f4aa9d7837caf62653d097ff85''\<rparr>,
         \<lparr>token = ''USDT'',
          data = ''0xeb0835bf00000000000000000000000094b008aa00579c1307b0ef2c499ad98a8ce58e58''\<rparr>]\<rparr>),
     (''polygon'', \<lparr>chainId = 137, name = ''Polygon'', transactions =
        [\<lparr>token = ''ETH'',
          data = ''0xeb0835bf0000000000000000000000000000000000000000000000000000000000000000''\<rparr>,
         \<lparr>token = ''USDC'',
          data = ''0xeb0835bf0000000000000000000000002791bca1f2de4661ed88a30c99a7a9449aa84174''\<rparr>,
         \<lparr>token = ''USDT'',
          data = ''0xeb0835bf000000000000000000000000c2132d05d31c914a87c6611c10748aeb04b58e8f''\<rparr>]\<rparr>)]"

text \<open>The records of the table, one per (network key, token) pair, in the order in
  which the nested loops of the three emitters visit them.\<close>

definition records :: "(string \<times> network_data \<times> tx) list" where
  "records = concat (map (\<lambda>(network_key, nd). map (\<lambda>t. (network_key, nd, t)) (transactions nd)) TRANSACTIONS)"

text \<open>The shape of a calldata string: \<open>0x\<close>, a selector of 8 hex digits, and one
  argument of 32 bytes, that is 64 hex digits.\<close>

definition is_hex_digit :: "char \<Rightarrow> bool" where
  "is_hex_digit c \<longleftrightarrow> c \<in> set ''0123456789abcdefABCDEF''"

definition selector_of :: "string \<Rightarrow> string" where
  "selector_of d = take 8 (drop 2 d)"

definition calldata_shape :: "string \<Rightarrow> bool" where
  "calldata_shape d \<longleftrightarrow>
     length d = 74 \<and> take 2 d = ''0x'' \<and> selector_of d = ''eb0835bf'' \<and>
     length (drop 10 d) = 64 \<and> list_all is_hex_digit (drop 10 d)"

section \<open>Strings of the Python runtime\<close>

text \<open>\<open>str.lower()\<close>; exact on ASCII text, which is all the script passes to it.\<close>

definition lower_char :: "char \<Rightarrow> char" where
  "lower_char c =
     (case map_of (zip ''ABCDEFGHIJKLMNOPQRSTUVWXYZ'' ''abcdefghijklmnopqrstuvwxyz'') c of
        Some l \<Rightarrow> l
      | None \<Rightarrow> c)"

definition lower :: "string \<Rightarrow> string" where
  "lower s = map lower_char s"

text \<open>\<open>str(n)\<close> for an \<open>int\<close>, as an f-string and the JSON encoder format it.\<close>

definition digit_char :: "nat \<Rightarrow> char" where
  "digit_char n = ''0123456789'' ! n"

fun str_nat :: "nat \<Rightarrow> string" where
  "str_nat n = (if n < 10 then [digit_char n] else str_nat (n div 10) @ [digit_char (n mod 10)])"

declare str_nat.simps [simp del]

definition str_int :: "int \<Rightarrow> string" where
  "str_int i = (if i < 0 then CHR ''-'' # str_nat (nat (- i)) else str_nat (nat i))"

text \<open>\<open>sep.join(xs)\<close>.\<close>

fun join :: "string \<Rightarrow> string list \<Rightarrow> string" where
  "join sep [] = []"
| "join sep [x] = x"
| "join sep (x # y # ys) = x @ sep @ join sep (y # ys)"

definition dquote :: char where
  "dquote = CHR 0x22"

definition squote :: char where
  "squote = CHR 0x27"

definition backslash :: char where
  "backslash = CHR 0x5C"

section \<open>The JSON encoder: json.dump(obj, f, indent=2)\<close>

text \<open>
  The script serialises one kind of object: a dict whose values are \<open>str\<close> or \<open>int\<close>.
  A dict keeps its insertion order, so it is an association list.
\<close>

datatype json = JStr string | JInt int

type_synonym pydict = "(string \<times> json) list"

text \<open>\<open>d[k] = v\<close>: an existing key keeps its place, a new key goes last.\<close>

fun dict_set :: "pydict \<Rightarrow> string \<Rightarrow> json \<Rightarrow> pydict" where
  "dict_set [] k v = [(k, v)]"
| "dict_set ((k', v') # d) k v = (if k' = k then (k, v) # d else (k', v') # dict_set d k v)"

text \<open>
  The encoder of strings with \<open>ensure_ascii=True\<close> (the default): the quote and the
  backslash are escaped, a character outside \<open>' '..'~'\<close> has a short escape or becomes
  \<open>\u00XX\<close>. Exact on ASCII text.
\<close>

definition hex_char :: "nat \<Rightarrow> char" where
  "hex_char n = ''0123456789abcdef'' ! n"

definition escape_char :: "char \<Rightarrow> string" where
  "escape_char c =
     (if c = dquote then [backslash, dquote]
      else if c = backslash then [backslash, backslash]
      else if c = CHR 0x08 then [backslash, CHR ''b'']
      else if c = CHR 0x0C then [backslash, CHR ''f'']
      else if c = CHR 0x0A then [backslash, CHR ''n'']
      else if c = CHR 0x0D then [backslash, CHR ''r'']
      else if c = CHR 0x09 then [backslash, CHR ''t'']
      else if (of_char c :: nat) < 32 \<or> 126 < (of_char c :: nat)
        then [backslash, CHR ''u'', CHR ''0'', CHR ''0'',
              hex_char ((of_char c :: nat) div 16), hex_char ((of_char c :: nat) mod 16)]
      else [c])"

definition encode_basestring_ascii :: "string \<Rightarrow> string" where
  "encode_basestring_ascii s = dquote # concat (map escape_char s) @ [dquote]"

fun encode_value :: "json \<Rightarrow> string" where
  "encode_value (JStr s) = encode_basestring_ascii s"
| "encode_value (JInt i) = str_int i"

text \<open>
  With \<open>indent=2\<close> the item separator is a comma followed by a newline and the
  indentation of level 1, the key separator is a colon and a space, the closing brace
  stands on a line of its own and nothing follows it; the empty dict is \<open>{}\<close>.
\<close>

definition newline_indent :: string where
  "newline_indent = ''\<newline>  ''"

definition encode_item :: "string \<times> json \<Rightarrow> string" where
  "encode_item kv = encode_basestring_ascii (fst kv) @ '': '' @ encode_value (snd kv)"

definition json_dump_indent2 :: "pydict \<Rightarrow> string" where
  "json_dump_indent2 dct =
     (if dct = [] then ''{}''
      else ''{'' @ newline_indent @ join ('','' @ newline_indent) (map encode_item dct)
           @ ''\<newline>'' @ ''}'')"

section \<open>The JSON decoder: json.loads\<close>

text \<open>
  The decoder of the standard library, on the fragment of JSON that the encoder above
  produces and a little more: one object whose values are strings or integers, with
  any JSON whitespace, the short escapes and \<open>\u00XX\<close> below 128. \<open>Some d\<close> means that
  \<open>json.loads\<close> returns the dict \<open>d\<close>; \<open>None\<close> stands for a \<open>JSONDecodeError\<close> and for
  JSON text outside this fragment (floats, literals, arrays, nested objects, other
  escapes, a top-level value that is no object).
\<close>

definition is_ws :: "char \<Rightarrow> bool" where
  "is_ws c \<longleftrightarrow> c = CHR '' '' \<or> c = CHR 0x09 \<or> c = CHR 0x0A \<or> c = CHR 0x0D"

fun skip_ws :: "string \<Rightarrow> string" where
  "skip_ws [] = []"
| "skip_ws (c # cs) = (if is_ws c then skip_ws cs else c # cs)"

definition hex_val :: "char \<Rightarrow> nat option" where
  "hex_val c = map_of (zip ''0123456789abcdefABCDEF''
     [0, 1, 2, 3, 4, 5, 6, 7, 8, 9, 10, 11, 12, 13, 14, 15, 10, 11, 12, 13, 14, 15]) c"

definition unescape :: "char \<Rightarrow> char option" where
  "unescape e =
     (if e = dquote then Some dquote
      else if e = backslash then Some backslash
      else if e = CHR ''/'' then Some (CHR ''/'')
      else if e = CHR ''b'' then Some (CHR 0x08)
      else if e = CHR ''f'' then Some (CHR 0x0C)
      else if e = CHR ''n'' then Some (CHR 0x0A)
      else if e = CHR ''r'' then Some (CHR 0x0D)
      else if e = CHR ''t'' then Some (CHR 0x09)
      else None)"

text \<open>\<open>scanstring\<close> (strict): the text after an opening quote, up to the closing one;
  it returns the decoded string and the rest of the input.\<close>

fun scanstring :: "string \<Rightarrow> (string \<times> string) option" where
  "scanstring [] = None"
| "scanstring (c # cs) =
     (if c = dquote then Some ([], cs)
      else if c = backslash then
        (case cs of
           [] \<Rightarrow> None
         | e # r \<Rightarrow>
             if e = CHR ''u'' then
               (case r of
                  h1 # h2 # h3 # h4 # r' \<Rightarrow>
                    (case (hex_val h1, hex_val h2, hex_val h3, hex_val h4) of
                       (Some a, Some b, Some c', Some d) \<Rightarrow>
                         if a = 0 \<and> b = 0 \<and> c' < 8
                         then map_option (\<lambda>(s, rest). (char_of (16 * c' + d) # s, rest)) (scanstring r')
                         else None
                     | _ \<Rightarrow> None)
                | _ \<Rightarrow> None)
             else
               (case unescape e of
                  None \<Rightarrow> None
                | Some ch \<Rightarrow> map_option (\<lambda>(s, rest). (ch # s, rest)) (scanstring r)))
      else if (of_char c :: nat) < 32 then None
      else map_option (\<lambda>(s, rest). (c # s, rest)) (scanstring cs))"

text \<open>An integer: an optional minus sign, then \<open>0\<close> or a digit from 1 to 9 followed by
  digits. A fraction or an exponent after it makes a float, outside the fragment.\<close>

definition digit_val :: "char \<Rightarrow> nat option" where
  "digit_val c = map_of (zip ''0123456789'' [0, 1, 2, 3, 4, 5, 6, 7, 8, 9]) c"

fun scan_digits :: "nat \<Rightarrow> string \<Rightarrow> nat \<times> string" where
  "scan_digits acc [] = (acc, [])"
| "scan_digits acc (c # cs) =
     (case digit_val c of
        None \<Rightarrow> (acc, c # cs)
      | Some d \<Rightarrow> scan_digits (10 * acc + d) cs)"

definition scan_nat :: "string \<Rightarrow> (nat \<times> string) option" where
  "scan_nat s =
     (case s of
        [] \<Rightarrow> None
      | c # cs \<Rightarrow>
          (case digit_val c of
             None \<Rightarrow> None
           | Some d \<Rightarrow>
               (let (n, rest) = (if d = 0 then (0, cs) else scan_digits d cs)
                in case rest of
                     [] \<Rightarrow> Some (n, rest)
                   | x # _ \<Rightarrow> if x = CHR ''.'' \<or> x = CHR ''e'' \<or> x = CHR ''E'' then None
                             else Some (n, rest))))"

definition scan_value :: "string \<Rightarrow> (json \<times> string) option" where
  "scan_value s =
     (case s of
        [] \<Rightarrow> None
      | c # cs \<Rightarrow>
          if c = dquote then map_option (\<lambda>(v, rest). (JStr v, rest)) (scanstring cs)
          else if c = CHR ''-'' then map_option (\<lambda>(n, rest). (JInt (- int n), rest)) (scan_nat cs)
          else map_option (\<lambda>(n, rest). (JInt (int n), rest)) (scan_nat s))"

lemma skip_ws_length: "length (skip_ws s) \<le> length s"
  by (induction s) auto

lemma scanstring_length: "scanstring s = Some (v, rest) \<Longrightarrow> length rest < length s"
proof (induction "length s" arbitrary: s v rest rule: less_induct)
  case less
  show ?case
  proof (cases s)
    case Nil
    with less.prems show ?thesis by simp
  next
    case (Cons c cs)
    have IH: "\<And>t w r. length t < length s \<Longrightarrow> scanstring t = Some (w, r) \<Longrightarrow> length r < length t"
      using less.hyps by blast
    from less.prems Cons show ?thesis
      by (auto split: if_splits list.splits option.splits dest!: IH [rotated])
  qed
qed

lemma scan_digits_length: "scan_digits acc s = (n, rest) \<Longrightarrow> length rest \<le> length s"
  by (induction s arbitrary: acc) (auto split: option.splits simp: le_Suc_eq)

lemma scan_nat_length: "scan_nat s = Some (n, rest) \<Longrightarrow> length rest < length s"
  by (auto simp: scan_nat_def Let_def less_Suc_eq_le
      split: list.splits option.splits if_splits prod.splits dest: scan_digits_length)

lemma scan_value_length: "scan_value s = Some (v, rest) \<Longrightarrow> length rest < length s"
  by (auto simp: scan_value_def less_Suc_eq
      split: list.splits if_splits dest!: scanstring_length scan_nat_length)

lemma skip_ws_Cons_length: "skip_ws s = c # rest \<Longrightarrow> length rest < length s"
  using skip_ws_length [of s] by simp

text \<open>
  The members of an object, from the first character of a key (after its opening
  quote): key, colon, value, then a closing brace or a comma and the next key. The
  pairs come back in the order of the text, with the input after the brace.
\<close>

function scan_pairs :: "string \<Rightarrow> (string \<times> json) list \<Rightarrow> ((string \<times> json) list \<times> string) option" where
  "scan_pairs s acc =
     (case scanstring s of
        None \<Rightarrow> None
      | Some (key, s1) \<Rightarrow>
          (case skip_ws s1 of
             [] \<Rightarrow> None
           | c # s2 \<Rightarrow>
               if c \<noteq> CHR '':'' then None
               else
                 (case scan_value (skip_ws s2) of
                    None \<Rightarrow> None
                  | Some (v, s3) \<Rightarrow>
                      (case skip_ws s3 of
                         [] \<Rightarrow> None
                       | d # s4 \<Rightarrow>
                           if d = CHR ''}'' then Some (acc @ [(key, v)], s4)
                           else if d = CHR '','' then
                             (case skip_ws s4 of
                                [] \<Rightarrow> None
                              | q # s5 \<Rightarrow>
                                  if q = dquote then scan_pairs s5 (acc @ [(key, v)]) else None)
                           else None))))"
  by pat_completeness auto

termination scan_pairs
proof (relation "measure (\<lambda>(s, acc). length s)", goal_cases)
  case 1
  show ?case by simp
next
  case (2 s acc x2 key s1 c s2 x2a v s3 d s4 q s5)
  have "length s1 < length s"
    using 2(1,2) scanstring_length [of s key s1] by simp
  moreover have "length s2 < length s1"
    using 2(3) by (rule skip_ws_Cons_length)
  moreover have "length s3 < length s2"
    using 2(5,6) scan_value_length [of "skip_ws s2" v s3] skip_ws_length [of s2] by simp
  moreover have "length s4 < length s3"
    using 2(7) by (rule skip_ws_Cons_length)
  moreover have "length s5 < length s4"
    using 2(10) by (rule skip_ws_Cons_length)
  ultimately show ?case by simp
qed

text \<open>\<open>dict(pairs)\<close>: a key that comes again replaces the value of the first.\<close>

definition dict_of_pairs :: "(string \<times> json) list \<Rightarrow> pydict" where
  "dict_of_pairs ps = foldl (\<lambda>d (k, v). dict_set d k v) [] ps"

text \<open>An object: the brace, then \<open>}\<close> at once or the members.\<close>

definition scan_object :: "string \<Rightarrow> (pydict \<times> string) option" where
  "scan_object s =
     (case s of
        [] \<Rightarrow> None
      | b # s1 \<Rightarrow>
          if b \<noteq> CHR ''{'' then None
          else
            (case skip_ws s1 of
               [] \<Rightarrow> None
             | c # s2 \<Rightarrow>
                 if c = CHR ''}'' then Some ([], s2)
                 else if c = dquote then
                   map_option (\<lambda>(ps, rest). (dict_of_pairs ps, rest)) (scan_pairs s2 [])
                 else None))"

text \<open>\<open>json.loads\<close>: whitespace, the value, whitespace, and then the end of the text.\<close>

definition json_loads :: "string \<Rightarrow> pydict option" where
  "json_loads s =
     (case scan_object (skip_ws s) of
        None \<Rightarrow> None
      | Some (d, rest) \<Rightarrow> if skip_ws rest = [] then Some d else None)"

section \<open>Files and standard output\<close>

text \<open>
  The world the script acts on: the files of the working directory (name to content),
  the arguments of the calls of \<open>print\<close> so far (each one is followed by a newline on
  the real standard output), and for every file name whether \<open>open(name, 'w')\<close>
  succeeds. An \<open>OSError\<close> is not caught anywhere: it ends the run.
\<close>

record world =
  files :: "string \<rightharpoonup> string"
  stdout :: "string list"
  writable :: "string \<Rightarrow> bool"

datatype error = OSError string

definition print :: "string \<Rightarrow> world \<Rightarrow> world" where
  "print s w = w\<lparr>stdout := stdout w @ [s]\<rparr>"

text \<open>\<open>with open(filename, 'w') as f: f.write(content)\<close>: the file is created or
  truncated, and holds the content when the block is left.\<close>

definition write_file :: "string \<Rightarrow> string \<Rightarrow> world \<Rightarrow> error + world" where
  "write_file filename content w =
     (if writable w filename then Inr (w\<lparr>files := (files w)(filename \<mapsto> content)\<rparr>)
      else Inl (OSError filename))"

text \<open>A \<open>for\<close> loop whose body may raise: the first error ends it.\<close>

fun for_each :: "('a \<Rightarrow> world \<Rightarrow> error + world) \<Rightarrow> 'a list \<Rightarrow> world \<Rightarrow> error + world" where
  "for_each body [] w = Inr w"
| "for_each body (x # xs) w =
     (case body x w of
        Inl e \<Rightarrow> Inl e
      | Inr w' \<Rightarrow> for_each body xs w')"

section \<open>generate_tx_json\<close>

text \<open>The dict \<open>transaction\<close> built in the inner loop, keys in the order of the literal.\<close>

definition transaction :: "network_data \<Rightarrow> tx \<Rightarrow> pydict" where
  "transaction nd t =
     [(''to'', JStr CONTRACT_ADDRESS),
      (''value'', JStr ''0x0''),
      (''data'', JStr (data t)),
      (''chainId'', JInt (chainId nd))]"

definition filename :: "string \<Rightarrow> tx \<Rightarrow> string" where
  "filename network_key t = ''tx_'' @ network_key @ ''_'' @ lower (token t) @ ''.json''"

text \<open>The body of the inner loop: write the file, then print three lines.\<close>

definition generate_tx_json_tx :: "string \<Rightarrow> network_data \<Rightarrow> tx \<Rightarrow> world \<Rightarrow> error + world" where
  "generate_tx_json_tx network_key nd t w =
     (case write_file (filename network_key t) (json_dump_indent2 (transaction nd t)) w of
        Inl e \<Rightarrow> Inl e
      | Inr w1 \<Rightarrow>
          Inr (print ''   Para usar: Importe este JSON na sua wallet''
              (print (''   Token: '' @ token t)
              (print (''\<newline>'' @ [CHR 0xE2, CHR 0x9C, CHR 0x85] @ '' Criado: '' @ filename network_key t)
               w1))))"

text \<open>The body of the outer loop: a headline of three lines, then the inner loop.\<close>

definition generate_tx_json_network :: "string \<times> network_data \<Rightarrow> world \<Rightarrow> error + world" where
  "generate_tx_json_network item w =
     (case item of (network_key, nd) \<Rightarrow>
        for_each (generate_tx_json_tx network_key nd) (transactions nd)
          (print (replicate 50 (CHR ''=''))
          (print ([CHR 0xF0, CHR 0x9F, CHR 0x8C, CHR 0x90] @ '' '' @ name nd
                    @ '' (Chain ID: '' @ str_int (chainId nd) @ '')'')
          (print (''\<newline>'' @ replicate 50 (CHR ''=''))
           w))))"

definition generate_tx_json :: "world \<Rightarrow> error + world" where
  "generate_tx_json w = for_each generate_tx_json_network TRANSACTIONS w"

section \<open>generate_copy_paste\<close>

text \<open>The eleven lines printed for one entry of a network's list.\<close>

definition generate_copy_paste_tx :: "string \<Rightarrow> network_data \<Rightarrow> tx \<Rightarrow> world \<Rightarrow> world" where
  "generate_copy_paste_tx network_key nd t w =
     fold print
       [''// Habilitar '' @ token t @ '':'',
        ''await ethereum.request({'',
        ''  method: '' @ [squote] @ ''eth_sendTransaction'' @ [squote] @ '','',
        ''  params: [{'',
        ''    from: ethereum.selectedAddress,'',
        ''    to: '' @ [squote] @ CONTRACT_ADDRESS @ [squote] @ '','',
        ''    data: '' @ [squote] @ data t @ [squote] @ '','',
        ''    value: '' @ [squote] @ ''0x0'' @ [squote],
        ''  }]'',
        ''});'',
        []]
       w"

definition generate_copy_paste_network :: "string \<times> network_data \<Rightarrow> world \<Rightarrow> world" where
  "generate_copy_paste_network item w =
     (case item of (network_key, nd) \<Rightarrow>
        fold (generate_copy_paste_tx network_key nd) (transactions nd)
          (print (''// Certifique-se de estar na rede correta!\<newline>'')
          (print (''\<newline>// '' @ name nd @ '' (Chain ID: '' @ str_int (chainId nd) @ '')'')
           w)))"

definition generate_copy_paste :: "world \<Rightarrow> world" where
  "generate_copy_paste w =
     fold generate_copy_paste_network TRANSACTIONS
       (print (replicate 70 (CHR ''=''))
       (print ([CHR 0xF0, CHR 0x9F, CHR 0x93, CHR 0x8B] @ '' COMANDOS PARA COPIAR E COLAR NO CONSOLE'')
       (print (''\<newline>\<newline>'' @ replicate 70 (CHR ''=''))
        w)))"

section \<open>generate_curl_commands\<close>

text \<open>The eight lines printed for one entry of a network's list.\<close>

definition generate_curl_commands_tx :: "string \<Rightarrow> network_data \<Rightarrow> tx \<Rightarrow> world \<Rightarrow> world" where
  "generate_curl_commands_tx network_key nd t w =
     fold print
       [''\<newline># Habilitar '' @ token t @ '':'',
        ''curl -X POST -H '' @ [squote] @ ''Content-Type: application/json'' @ [squote] @ '' '' @ [backslash],
        ''  -d '' @ [squote] @ ''{'',
        ''    '' @ [dquote] @ ''to'' @ [dquote] @ '': '' @ [dquote] @ CONTRACT_ADDRESS @ [dquote] @ '','',
        ''    '' @ [dquote] @ ''data'' @ [dquote] @ '': '' @ [dquote] @ data t @ [dquote] @ '','',
        ''    '' @ [dquote] @ ''value'' @ [dquote] @ '': '' @ [dquote] @ ''0x0'' @ [dquote],
        ''  }'' @ [squote] @ '' '' @ [backslash],
        ''  YOUR_WALLET_API_ENDPOINT'']
       w"

definition generate_curl_commands_network :: "string \<times> network_data \<Rightarrow> world \<Rightarrow> world" where
  "generate_curl_commands_network item w =
     (case item of (network_key, nd) \<Rightarrow>
        fold (generate_curl_commands_tx network_key nd) (transactions nd)
          (print (''\<newline># '' @ name nd) w))"

definition generate_curl_commands :: "world \<Rightarrow> world" where
  "generate_curl_commands w =
     fold generate_curl_commands_network TRANSACTIONS
       (print (replicate 70 (CHR ''=''))
       (print ([CHR 0xF0, CHR 0x9F, CHR 0x94, CHR 0xA7] @ '' COMANDOS CURL PARA WALLETS QUE SUPORTAM API'')
       (print (''\<newline>\<newline>'' @ replicate 70 (CHR ''=''))
        w)))"

section \<open>Reading the effects of a run\<close>

text \<open>The file written for each record, in the order of the loops: its name and its
  content.\<close>

definition emitted_of :: "(string \<times> network_data) list \<Rightarrow> (string \<times> string) list" where
  "emitted_of table =
     concat (map (\<lambda>(network_key, nd).
       map (\<lambda>t. (filename network_key t, json_dump_indent2 (transaction nd t))) (transactions nd)) table)"

definition emitted :: "(string \<times> string) list" where
  "emitted = emitted_of TRANSACTIONS"

text \<open>The directory after a sequence of writes, a later write to a name replacing an
  earlier one.\<close>

fun files_after :: "(string \<times> string) list \<Rightarrow> (string \<rightharpoonup> string) \<Rightarrow> (string \<rightharpoonup> string)" where
  "files_after [] m = m"
| "files_after ((fn, content) # ws) m = files_after ws (m(fn \<mapsto> content))"

text \<open>The arguments of the calls of \<open>print\<close> that an emitter adds to the output, and
  the text that they put on the real standard output.\<close>

definition output_of :: "(world \<Rightarrow> world) \<Rightarrow> world \<Rightarrow> string list" where
  "output_of emitter w = drop (length (stdout w)) (stdout (emitter w))"

definition unlines :: "string list \<Rightarrow> string" where
  "unlines ls = concat (map (\<lambda>l. l @ ''\<newline>'') ls)"

text \<open>The text of a curl command that posts a body, quoted for the shell, to an
  endpoint: three lines joined by a backslash at the end of the first two.\<close>

definition curl_post :: "string \<Rightarrow> string \<Rightarrow> string" where
  "curl_post body endpoint =
     ''curl -X POST -H '' @ [squote] @ ''Content-Type: application/json'' @ [squote] @ '' '' @ [backslash]
       @ ''\<newline>  -d '' @ [squote] @ body @ [squote] @ '' '' @ [backslash]
       @ ''\<newline>  '' @ endpoint @ ''\<newline>''"

definition is_curl_line :: "string \<Rightarrow> bool" where
  "is_curl_line l \<longleftrightarrow> take 5 l = ''curl ''"

text \<open>The body that the curl snippet of an entry passes to \<open>-d\<close>: the text between
  the single quotes, over five printed lines.\<close>

definition curl_body :: "tx \<Rightarrow> string" where
  "curl_body t =
     ''{\<newline>    '' @ [dquote] @ ''to'' @ [dquote] @ '': '' @ [dquote] @ CONTRACT_ADDRESS @ [dquote] @ '',''
     @ ''\<newline>    '' @ [dquote] @ ''data'' @ [dquote] @ '': '' @ [dquote] @ data t @ [dquote] @ '',''
     @ ''\<newline>    '' @ [dquote] @ ''value'' @ [dquote] @ '': '' @ [dquote] @ ''0x0'' @ [dquote]
     @ ''\<newline>  }''"

text \<open>A world for the examples: an empty directory where every file can be opened,
  and nothing printed yet.\<close>

definition fresh_world :: world where
  "fresh_world = \<lparr>files = Map.empty, stdout = [], writable = (\<lambda>_. True)\<rparr>"

section \<open>Evaluating the model\<close>

lemma str_nat_numeral [simp]:
  "str_nat (numeral n) =
     (if (numeral n :: nat) < 10 then [digit_char (numeral n)]
      else str_nat (numeral n div 10) @ [digit_char (numeral n mod 10)])"
  by (rule str_nat.simps)

lemma str_nat_one [simp]: "str_nat (Suc 0) = ''1''"
  by (simp add: str_nat.simps [of "Suc 0"] digit_char_def)

lemmas table_defs = records_def TRANSACTIONS_def

lemmas dump_defs = json_dump_indent2_def transaction_def encode_item_def
  encode_basestring_ascii_def escape_char_def newline_indent_def str_int_def digit_char_def
  CONTRACT_ADDRESS_def dquote_def backslash_def

lemmas loads_defs = json_loads_def scan_object_def scan_value_def scan_nat_def digit_val_def
  is_ws_def dict_of_pairs_def dquote_def backslash_def

lemma records_roundtrip_all:
  "list_all (\<lambda>(k, nd, t). json_loads (json_dump_indent2 (transaction nd t)) = Some (transaction nd t)) records"
  by (simp add: table_defs dump_defs loads_defs)

lemma records_roundtrip:
  assumes "(k, nd, t) \<in> set records"
  shows "json_loads (json_dump_indent2 (transaction nd t)) = Some (transaction nd t)"
  using records_roundtrip_all assms unfolding list_all_iff by blast

lemma record_filenames:
  "map (\<lambda>(k, nd, t). filename k t) records =
     [''tx_arbitrum_eth.json'', ''tx_arbitrum_usdc.json'', ''tx_arbitrum_usdt.json'',
      ''tx_base_eth.json'', ''tx_base_usdc.json'', ''tx_base_usdt.json'',
      ''tx_optimism_eth.json'', ''tx_optimism_usdc.json'', ''tx_optimism_usdt.json'',
      ''tx_polygon_eth.json'', ''tx_polygon_usdc.json'', ''tx_polygon_usdt.json'']"
  by (simp add: table_defs filename_def lower_def lower_char_def)

lemma record_filenames_distinct: "distinct (map (\<lambda>(k, nd, t). filename k t) records)"
  unfolding record_filenames by simp

section \<open>The writes of generate_tx_json\<close>

lemma files_after_append: "files_after (ws @ ws') m = files_after ws' (files_after ws m)"
  by (induction ws m rule: files_after.induct) (simp_all only: append.simps files_after.simps)

lemma files_after_map_add: "files_after ws m = m ++ map_of (rev ws)"
proof (induction ws arbitrary: m)
  case Nil
  show ?case by (simp only: files_after.simps rev.simps map_of.simps map_add_empty)
next
  case (Cons p ws)
  obtain fn c where p: "p = (fn, c)" by (cases p)
  have "files_after (p # ws) m = files_after ws (m(fn \<mapsto> c))"
    unfolding p by (simp only: files_after.simps)
  also have "\<dots> = m(fn \<mapsto> c) ++ map_of (rev ws)"
    by (rule Cons.IH)
  also have "\<dots> = m ++ map_of (rev (p # ws))"
    unfolding p by (rule ext) (simp add: map_add_def split: option.splits)
  finally show ?case .
qed

lemma files_after_idem: "files_after ws (files_after ws m) = files_after ws m"
proof (rule ext)
  fix fn
  show "files_after ws (files_after ws m) fn = files_after ws m fn"
    by (simp add: files_after_map_add [of ws] map_add_def split: option.splits)
qed

lemma files_after_lookup:
  assumes "distinct (map fst ws)" and "(fn, c) \<in> set ws"
  shows "files_after ws m fn = Some c"
proof -
  have "distinct (map fst (rev ws))" using assms(1) by (simp add: rev_map [symmetric])
  moreover have "(fn, c) \<in> set (rev ws)" using assms(2) by simp
  ultimately have "map_of (rev ws) fn = Some c" by (rule map_of_is_SomeI)
  then show ?thesis by (simp add: files_after_map_add [of ws] map_add_def)
qed

lemma dom_files_after: "dom (files_after ws m) = dom m \<union> fst ` set ws"
  by (auto simp: files_after_map_add [of ws] dom_map_of_conv_image_fst)

lemma print_fields:
  "files (print s w) = files w" "writable (print s w) = writable w"
  "stdout (print s w) = stdout w @ [s]"
  by (simp_all add: print_def)

lemma generate_tx_json_tx_Inr:
  assumes "generate_tx_json_tx k nd t w = Inr w'"
  shows "files w' = (files w)(filename k t \<mapsto> json_dump_indent2 (transaction nd t))"
    and "writable w' = writable w"
  using assms by (auto simp: generate_tx_json_tx_def write_file_def print_fields split: if_splits)

lemma generate_tx_json_tx_writable:
  "writable w (filename k t) \<Longrightarrow> \<exists>w'. generate_tx_json_tx k nd t w = Inr w'"
  by (simp add: generate_tx_json_tx_def write_file_def)

lemma inner_loop_Inr:
  assumes "for_each (generate_tx_json_tx k nd) ts w = Inr w'"
  shows "files w' = files_after (map (\<lambda>t. (filename k t, json_dump_indent2 (transaction nd t))) ts) (files w)
      \<and> writable w' = writable w"
  using assms
proof (induction ts arbitrary: w)
  case Nil
  then show ?case by (simp only: for_each.simps list.map files_after.simps sum.inject)
next
  case (Cons t ts)
  from Cons.prems obtain w1 where
    w1: "generate_tx_json_tx k nd t w = Inr w1" and rest: "for_each (generate_tx_json_tx k nd) ts w1 = Inr w'"
    by (auto split: sum.splits)
  note step = generate_tx_json_tx_Inr [OF w1]
  have "files w' = files_after (map (\<lambda>t. (filename k t, json_dump_indent2 (transaction nd t))) ts) (files w1)"
    and "writable w' = writable w1"
    using Cons.IH [OF rest] by blast+
  then show ?case
    unfolding step by (simp only: list.map files_after.simps simp_thms)
qed

lemma inner_loop_writable:
  "\<forall>t \<in> set ts. writable w (filename k t) \<Longrightarrow> \<exists>w'. for_each (generate_tx_json_tx k nd) ts w = Inr w'"
proof (induction ts arbitrary: w)
  case Nil
  show ?case by simp
next
  case (Cons t ts)
  from Cons.prems obtain w1 where w1: "generate_tx_json_tx k nd t w = Inr w1"
    using generate_tx_json_tx_writable [of w k t nd] by auto
  have "writable w1 = writable w" using w1 by (rule generate_tx_json_tx_Inr)
  with Cons.prems have "\<forall>t \<in> set ts. writable w1 (filename k t)" by simp
  from Cons.IH [OF this] w1 show ?case by simp
qed

lemma emitted_of_Cons:
  "emitted_of ((k, nd) # table) =
     map (\<lambda>t. (filename k t, json_dump_indent2 (transaction nd t))) (transactions nd) @ emitted_of table"
  by (simp add: emitted_of_def)

lemma network_Inr:
  assumes "generate_tx_json_network (k, nd) w = Inr w'"
  shows "files w' = files_after (map (\<lambda>t. (filename k t, json_dump_indent2 (transaction nd t))) (transactions nd)) (files w)
     \<and> writable w' = writable w"
proof -
  let ?w0 = "print (replicate 50 (CHR ''=''))
          (print ([CHR 0xF0, CHR 0x9F, CHR 0x8C, CHR 0x90] @ '' '' @ name nd
                    @ '' (Chain ID: '' @ str_int (chainId nd) @ '')'')
          (print (''\<newline>'' @ replicate 50 (CHR ''='')) w))"
  have "for_each (generate_tx_json_tx k nd) (transactions nd) ?w0 = Inr w'"
    using assms by (simp add: generate_tx_json_network_def)
  from inner_loop_Inr [OF this] show ?thesis
    by (simp only: print_fields)
qed

lemma network_writable:
  assumes "\<forall>t \<in> set (transactions nd). writable w (filename k t)"
  shows "\<exists>w'. generate_tx_json_network (k, nd) w = Inr w'"
  unfolding generate_tx_json_network_def prod.case
  by (rule inner_loop_writable) (simp add: print_fields assms)

lemma outer_loop_Inr:
  assumes "for_each generate_tx_json_network table w = Inr w'"
  shows "files w' = files_after (emitted_of table) (files w) \<and> writable w' = writable w"
  using assms
proof (induction table arbitrary: w)
  case Nil
  then show ?case by (simp add: emitted_of_def)
next
  case (Cons item table)
  obtain k nd where item: "item = (k, nd)" by (cases item)
  from Cons.prems obtain w1 where
    w1: "generate_tx_json_network (k, nd) w = Inr w1" and rest: "for_each generate_tx_json_network table w1 = Inr w'"
    unfolding item by (auto split: sum.splits)
  have "files w' = files_after (emitted_of table) (files w1)" and "writable w' = writable w1"
    using Cons.IH [OF rest] by blast+
  moreover have "files w1 = files_after (map (\<lambda>t. (filename k t, json_dump_indent2 (transaction nd t))) (transactions nd)) (files w)"
    and "writable w1 = writable w"
    using network_Inr [OF w1] by blast+
  ultimately show ?case
    unfolding item by (simp only: emitted_of_Cons files_after_append simp_thms)
qed

lemma outer_loop_writable:
  "\<forall>fn \<in> fst ` set (emitted_of table). writable w fn \<Longrightarrow> \<exists>w'. for_each generate_tx_json_network table w = Inr w'"
proof (induction table arbitrary: w)
  case Nil
  show ?case by simp
next
  case (Cons item table)
  obtain k nd where item: "item = (k, nd)" by (cases item)
  have "\<forall>t \<in> set (transactions nd). writable w (filename k t)"
    using Cons.prems unfolding item emitted_of_Cons by force
  then obtain w1 where w1: "generate_tx_json_network (k, nd) w = Inr w1"
    using network_writable by blast
  have "writable w1 = writable w" using network_Inr [OF w1] by blast
  with Cons.prems have "\<forall>fn \<in> fst ` set (emitted_of table). writable w1 fn"
    unfolding item emitted_of_Cons by auto
  from Cons.IH [OF this] w1 show ?case unfolding item by simp
qed

lemma generate_tx_json_Inr:
  assumes "generate_tx_json w = Inr w'"
  shows "files w' = files_after emitted (files w)" and "writable w' = writable w"
  using outer_loop_Inr [of TRANSACTIONS w w'] assms
  unfolding generate_tx_json_def emitted_def by blast+

text \<open>The run returns when every file it writes can be opened.\<close>

lemma generate_tx_json_returns:
  "\<forall>fn \<in> fst ` set emitted. writable w fn \<Longrightarrow> \<exists>w'. generate_tx_json w = Inr w'"
  unfolding generate_tx_json_def emitted_def by (rule outer_loop_writable)

lemma generate_tx_json_fresh: "\<exists>w'. generate_tx_json fresh_world = Inr w'"
  by (rule generate_tx_json_returns) (simp add: fresh_world_def)

lemma generate_tx_json_again:
  assumes "generate_tx_json fresh_world = Inr w1"
  shows "\<exists>w2. generate_tx_json w1 = Inr w2"
proof (rule generate_tx_json_returns)
  have "writable w1 = writable fresh_world" using assms by (rule generate_tx_json_Inr)
  then show "\<forall>fn \<in> fst ` set emitted. writable w1 fn" by (simp add: fresh_world_def)
qed

lemma emitted_records:
  "emitted = map (\<lambda>(k, nd, t). (filename k t, json_dump_indent2 (transaction nd t))) records"
  by (simp add: emitted_def emitted_of_def records_def map_concat comp_def split_def)

lemma emitted_names: "map fst emitted = map (\<lambda>(k, nd, t). filename k t) records"
  unfolding emitted_records by (simp add: comp_def split_def)

text \<open>After a run that returned, the file of every record holds that record's
  transaction.\<close>

lemma emitted_file:
  assumes "generate_tx_json w = Inr w'" and "(k, nd, t) \<in> set records"
  shows "files w' (filename k t) = Some (json_dump_indent2 (transaction nd t))"
proof -
  have "distinct (map fst emitted)"
    unfolding emitted_names by (rule record_filenames_distinct)
  moreover have "(filename k t, json_dump_indent2 (transaction nd t)) \<in> set emitted"
    unfolding emitted_records using assms(2) by force
  ultimately have "files_after emitted (files w) (filename k t) = Some (json_dump_indent2 (transaction nd t))"
    by (rule files_after_lookup)
  then show ?thesis
    unfolding generate_tx_json_Inr(1) [OF assms(1)] .
qed

lemma base_usdc_record:
  "(''base'', snd (TRANSACTIONS ! 1), transactions (snd (TRANSACTIONS ! 1)) ! 1) \<in> set records"
  by (simp add: table_defs)

lemma optimism_usdt_record:
  "(''optimism'', snd (TRANSACTIONS ! 2), transactions (snd (TRANSACTIONS ! 2)) ! 2) \<in> set records"
  by (simp add: table_defs)

section \<open>The output of the snippet emitters\<close>

lemma fold_print:
  "stdout (fold print ls w) = stdout w @ ls \<and> files (fold print ls w) = files w"
  by (induction ls arbitrary: w) (simp_all add: print_fields)

lemma fold_stdout:
  assumes "\<And>x w. stdout (f x w) = stdout w @ g x"
  shows "stdout (fold f xs w) = stdout w @ concat (map g xs)"
  by (induction xs arbitrary: w) (simp_all add: assms)

lemma fold_files:
  assumes "\<And>x w. files (f x w) = files w"
  shows "files (fold f xs w) = files w"
  by (induction xs arbitrary: w) (simp_all add: assms)

lemma output_ofI: "stdout (f w) = stdout w @ ls \<Longrightarrow> output_of f w = ls"
  by (simp add: output_of_def)

lemma curl_tx_stdout:
  "stdout (generate_curl_commands_tx k nd t w) = stdout w @
       [''\<newline># Habilitar '' @ token t @ '':'',
        ''curl -X POST -H '' @ [squote] @ ''Content-Type: application/json'' @ [squote] @ '' '' @ [backslash],
        ''  -d '' @ [squote] @ ''{'',
        ''    '' @ [dquote] @ ''to'' @ [dquote] @ '': '' @ [dquote] @ CONTRACT_ADDRESS @ [dquote] @ '','',
        ''    '' @ [dquote] @ ''data'' @ [dquote] @ '': '' @ [dquote] @ data t @ [dquote] @ '','',
        ''    '' @ [dquote] @ ''value'' @ [dquote] @ '': '' @ [dquote] @ ''0x0'' @ [dquote],
        ''  }'' @ [squote] @ '' '' @ [backslash],
        ''  YOUR_WALLET_API_ENDPOINT'']"
  unfolding generate_curl_commands_tx_def by (simp only: fold_print)

lemma curl_tx_files: "files (generate_curl_commands_tx k nd t w) = files w"
  unfolding generate_curl_commands_tx_def by (simp only: fold_print)

lemma curl_tx_unlines:
  "unlines (output_of (generate_curl_commands_tx k nd t) w) =
     ''\<newline># Habilitar '' @ token t @ '':\<newline>'' @ curl_post (curl_body t) ''YOUR_WALLET_API_ENDPOINT''"
  by (simp add: output_ofI [OF curl_tx_stdout] unlines_def curl_post_def curl_body_def)

lemma curl_tx_one_command:
  "length (filter is_curl_line (output_of (generate_curl_commands_tx k nd t) w)) = 1"
  by (simp add: output_ofI [OF curl_tx_stdout] is_curl_line_def squote_def dquote_def)

lemma curl_body_parses_all:
  "list_all (\<lambda>(k, nd, t). json_loads (curl_body t) =
      Some [(''to'', JStr CONTRACT_ADDRESS), (''data'', JStr (data t)), (''value'', JStr ''0x0'')]) records"
  by (simp add: table_defs curl_body_def CONTRACT_ADDRESS_def loads_defs)

lemma curl_body_parses:
  assumes "(k, nd, t) \<in> set records"
  shows "json_loads (curl_body t) =
      Some [(''to'', JStr CONTRACT_ADDRESS), (''data'', JStr (data t)), (''value'', JStr ''0x0'')]"
  using curl_body_parses_all assms unfolding list_all_iff by blast

lemma curl_network_stdout:
  "stdout (generate_curl_commands_network (k, nd) w) = stdout w @
     (''\<newline># '' @ name nd) # concat (map (\<lambda>t. output_of (generate_curl_commands_tx k nd t) w0) (transactions nd))"
proof -
  have "stdout (fold (generate_curl_commands_tx k nd) (transactions nd) (print (''\<newline># '' @ name nd) w))
      = stdout (print (''\<newline># '' @ name nd) w)
        @ concat (map (\<lambda>t. output_of (generate_curl_commands_tx k nd t) w0) (transactions nd))"
    by (rule fold_stdout) (simp add: curl_tx_stdout output_ofI [OF curl_tx_stdout])
  then show ?thesis
    by (simp add: generate_curl_commands_network_def print_fields)
qed

lemma curl_network_files: "files (generate_curl_commands_network item w) = files w"
  by (cases item) (simp add: generate_curl_commands_network_def fold_files curl_tx_files print_fields)

lemma curl_stdout:
  "stdout (generate_curl_commands w) = stdout w @
     [''\<newline>\<newline>'' @ replicate 70 (CHR ''=''),
      [CHR 0xF0, CHR 0x9F, CHR 0x94, CHR 0xA7] @ '' COMANDOS CURL PARA WALLETS QUE SUPORTAM API'',
      replicate 70 (CHR ''='')]
     @ concat (map (\<lambda>(k, nd). (''\<newline># '' @ name nd)
          # concat (map (\<lambda>t. output_of (generate_curl_commands_tx k nd t) w0) (transactions nd))) TRANSACTIONS)"
proof -
  have "\<And>item w. stdout (generate_curl_commands_network item w) = stdout w @
      (\<lambda>(k, nd). (''\<newline># '' @ name nd)
          # concat (map (\<lambda>t. output_of (generate_curl_commands_tx k nd t) w0) (transactions nd))) item"
  proof -
    fix item :: "string \<times> network_data" and w
    obtain k nd where item: "item = (k, nd)" by (cases item)
    show "stdout (generate_curl_commands_network item w) = stdout w @
      (\<lambda>(k, nd). (''\<newline># '' @ name nd)
          # concat (map (\<lambda>t. output_of (generate_curl_commands_tx k nd t) w0) (transactions nd))) item"
      unfolding item prod.case by (rule curl_network_stdout)
  qed
  from fold_stdout [of generate_curl_commands_network, OF this]
  show ?thesis
    unfolding generate_curl_commands_def by (simp only: print_fields append_assoc append.simps)
qed

lemma curl_files: "files (generate_curl_commands w) = files w"
  unfolding generate_curl_commands_def
  by (simp only: fold_files [of generate_curl_commands_network, OF curl_network_files] print_fields)

lemma curl_commands_count:
  "length (filter is_curl_line (concat (map (\<lambda>(k, nd). (''\<newline># '' @ name nd)
      # concat (map (\<lambda>t. output_of (generate_curl_commands_tx k nd t) w0) (transactions nd))) TRANSACTIONS)))
    = 12"
  by (simp add: TRANSACTIONS_def output_ofI [OF curl_tx_stdout] is_curl_line_def squote_def dquote_def)

lemma copy_paste_tx_stdout:
  "stdout (generate_copy_paste_tx k nd t w) = stdout w @
       [''// Habilitar '' @ token t @ '':'',
        ''await ethereum.request({'',
        ''  method: '' @ [squote] @ ''eth_sendTransaction'' @ [squote] @ '','',
        ''  params: [{'',
        ''    from: ethereum.selectedAddress,'',
        ''    to: '' @ [squote] @ CONTRACT_ADDRESS @ [squote] @ '','',
        ''    data: '' @ [squote] @ data t @ [squote] @ '','',
        ''    value: '' @ [squote] @ ''0x0'' @ [squote],
        ''  }]'',
        ''});'',
        []]"
  unfolding generate_copy_paste_tx_def by (simp only: fold_print)

lemma copy_paste_network_stdout:
  "stdout (generate_copy_paste_network (k, nd) w) = stdout w @
     [''\<newline>// '' @ name nd @ '' (Chain ID: '' @ str_int (chainId nd) @ '')'',
      ''// Certifique-se de estar na rede correta!\<newline>'']
     @ concat (map (\<lambda>t. output_of (generate_copy_paste_tx k nd t) w0) (transactions nd))"
proof -
  let ?w1 = "print (''// Certifique-se de estar na rede correta!\<newline>'')
          (print (''\<newline>// '' @ name nd @ '' (Chain ID: '' @ str_int (chainId nd) @ '')'') w)"
  have "stdout (fold (generate_copy_paste_tx k nd) (transactions nd) ?w1)
      = stdout ?w1 @ concat (map (\<lambda>t. output_of (generate_copy_paste_tx k nd t) w0) (transactions nd))"
    by (rule fold_stdout) (simp add: copy_paste_tx_stdout output_ofI [OF copy_paste_tx_stdout])
  then show ?thesis
    by (simp add: generate_copy_paste_network_def print_fields)
qed

section \<open>The files of generate_tx_json\<close>

text \<open>
  C1: after a run of the file emitter, the file \<open>tx_base_usdc.json\<close>, which is the file
  of the record with network key \<open>base\<close> and token \<open>USDC\<close>, holds a text that parses
  as the JSON object with \<open>to\<close> the contract address, \<open>value\<close> \<open>"0x0"\<close>, \<open>data\<close> the
  calldata of that record and \<open>chainId\<close> 8453.
\<close>

theorem base_usdc_file:
  assumes "generate_tx_json w = Inr w'"
  shows "\<exists>nd t content.
     (''base'', nd, t) \<in> set records \<and> token t = ''USDC'' \<and>
     filename ''base'' t = ''tx_base_usdc.json'' \<and>
     files w' ''tx_base_usdc.json'' = Some content \<and>
     json_loads content =
       Some [(''to'', JStr ''0x8B173c2E4C84b4bdD8c656F3d47Bc4259594Bd48''),
             (''value'', JStr ''0x0''),
             (''data'', JStr ''0xeb0835bf000000000000000000000000833589fcd6edb6e08f4c7c32d4f71b54bda02913''),
             (''chainId'', JInt 8453)]"
proof -
  let ?nd = "snd (TRANSACTIONS ! 1)"
  let ?t = "transactions ?nd ! 1"
  let ?content = "json_dump_indent2 (transaction ?nd ?t)"
  have name: "filename ''base'' ?t = ''tx_base_usdc.json''"
    by (simp add: TRANSACTIONS_def filename_def lower_def lower_char_def)
  have "files w' (filename ''base'' ?t) = Some ?content"
    using assms base_usdc_record by (rule emitted_file)
  then have stored: "files w' ''tx_base_usdc.json'' = Some ?content"
    unfolding name .
  have "json_loads ?content = Some (transaction ?nd ?t)"
    using base_usdc_record by (rule records_roundtrip)
  moreover have "transaction ?nd ?t =
       [(''to'', JStr ''0x8B173c2E4C84b4bdD8c656F3d47Bc4259594Bd48''),
        (''value'', JStr ''0x0''),
        (''data'', JStr ''0xeb0835bf000000000000000000000000833589fcd6edb6e08f4c7c32d4f71b54bda02913''),
        (''chainId'', JInt 8453)]"
    by (simp add: TRANSACTIONS_def transaction_def CONTRACT_ADDRESS_def)
  ultimately have parsed: "json_loads ?content =
       Some [(''to'', JStr ''0x8B173c2E4C84b4bdD8c656F3d47Bc4259594Bd48''),
             (''value'', JStr ''0x0''),
             (''data'', JStr ''0xeb0835bf000000000000000000000000833589fcd6edb6e08f4c7c32d4f71b54bda02913''),
             (''chainId'', JInt 8453)]"
    by simp
  have "token ?t = ''USDC''" by (simp add: TRANSACTIONS_def)
  with base_usdc_record name stored parsed show ?thesis by blast
qed

theorem base_usdc_file_witness:
  "\<exists>w'. generate_tx_json fresh_world = Inr w' \<and>
     (\<exists>content. files w' ''tx_base_usdc.json'' = Some content \<and>
        json_loads content =
          Some [(''to'', JStr ''0x8B173c2E4C84b4bdD8c656F3d47Bc4259594Bd48''),
                (''value'', JStr ''0x0''),
                (''data'', JStr ''0xeb0835bf000000000000000000000000833589fcd6edb6e08f4c7c32d4f71b54bda02913''),
                (''chainId'', JInt 8453)])"
proof -
  from generate_tx_json_fresh obtain w' where run: "generate_tx_json fresh_world = Inr w'" ..
  from base_usdc_file [OF run] run show ?thesis by blast
qed

text \<open>
  C2: for every record of the table, the file that the emitter writes parses as a JSON
  object with exactly the four keys \<open>to\<close>, \<open>value\<close>, \<open>data\<close>, \<open>chainId\<close>, where \<open>to\<close> is
  the constant contract address, \<open>value\<close> is the string \<open>0x0\<close>, \<open>data\<close> is the calldata
  string of the record and \<open>chainId\<close> is the chain ID of its network, an integer.
\<close>

theorem emitted_json_schema:
  assumes "generate_tx_json w = Inr w'" and "(k, nd, t) \<in> set records"
  shows "\<exists>content obj.
     files w' (filename k t) = Some content \<and> json_loads content = Some obj \<and>
     map fst obj = [''to'', ''value'', ''data'', ''chainId''] \<and>
     obj = [(''to'', JStr CONTRACT_ADDRESS), (''value'', JStr ''0x0''),
            (''data'', JStr (data t)), (''chainId'', JInt (chainId nd))] \<and>
     CONTRACT_ADDRESS = ''0x8B173c2E4C84b4bdD8c656F3d47Bc4259594Bd48''"
proof (intro exI conjI)
  show "files w' (filename k t) = Some (json_dump_indent2 (transaction nd t))"
    using assms by (rule emitted_file)
  show "json_loads (json_dump_indent2 (transaction nd t)) = Some (transaction nd t)"
    using assms(2) by (rule records_roundtrip)
  show "map fst (transaction nd t) = [''to'', ''value'', ''data'', ''chainId'']"
    by (simp add: transaction_def)
  show "transaction nd t = [(''to'', JStr CONTRACT_ADDRESS), (''value'', JStr ''0x0''),
            (''data'', JStr (data t)), (''chainId'', JInt (chainId nd))]"
    by (simp only: transaction_def)
  show "CONTRACT_ADDRESS = ''0x8B173c2E4C84b4bdD8c656F3d47Bc4259594Bd48''"
    by (rule CONTRACT_ADDRESS_def)
qed

theorem emitted_json_schema_witness:
  "\<exists>w'. generate_tx_json fresh_world = Inr w' \<and>
     (\<exists>content. files w' ''tx_optimism_usdt.json'' = Some content \<and>
        json_loads content =
          Some [(''to'', JStr ''0x8B173c2E4C84b4bdD8c656F3d47Bc4259594Bd48''),
                (''value'', JStr ''0x0''),
                (''data'', JStr ''0xeb0835bf00000000000000000000000094b008aa00579c1307b0ef2c499ad98a8ce58e58''),
                (''chainId'', JInt 10)])"
proof -
  from generate_tx_json_fresh obtain w' where run: "generate_tx_json fresh_world = Inr w'" ..
  from emitted_json_schema [OF run optimism_usdt_record] obtain content where
    "files w' (filename ''optimism'' (transactions (snd (TRANSACTIONS ! 2)) ! 2)) = Some content"
    "json_loads content =
       Some [(''to'', JStr CONTRACT_ADDRESS), (''value'', JStr ''0x0''),
             (''data'', JStr (data (transactions (snd (TRANSACTIONS ! 2)) ! 2))),
             (''chainId'', JInt (chainId (snd (TRANSACTIONS ! 2))))]"
    by blast
  then have "files w' ''tx_optimism_usdt.json'' = Some content \<and>
        json_loads content =
          Some [(''to'', JStr ''0x8B173c2E4C84b4bdD8c656F3d47Bc4259594Bd48''),
                (''value'', JStr ''0x0''),
                (''data'', JStr ''0xeb0835bf00000000000000000000000094b008aa00579c1307b0ef2c499ad98a8ce58e58''),
                (''chainId'', JInt 10)]"
    by (simp add: TRANSACTIONS_def filename_def lower_def lower_char_def CONTRACT_ADDRESS_def)
  with run show ?thesis by blast
qed

text \<open>
  C4: for every record, the file that the emitter writes for it is named
  \<open>tx_\<close>, the network key, \<open>_\<close>, the token symbol in lower case, \<open>.json\<close>; the names of
  a run are exactly these, twelve in all.
\<close>

theorem emitted_filename:
  assumes "generate_tx_json w = Inr w'" and "(k, nd, t) \<in> set records"
  shows "filename k t = ''tx_'' @ k @ ''_'' @ lower (token t) @ ''.json'' \<and>
     files w' (''tx_'' @ k @ ''_'' @ lower (token t) @ ''.json'') = Some (json_dump_indent2 (transaction nd t)) \<and>
     dom (files w') = dom (files w) \<union> (\<lambda>(k, nd, t). ''tx_'' @ k @ ''_'' @ lower (token t) @ ''.json'') ` set records \<and>
     map (\<lambda>(k, nd, t). ''tx_'' @ k @ ''_'' @ lower (token t) @ ''.json'') records =
       [''tx_arbitrum_eth.json'', ''tx_arbitrum_usdc.json'', ''tx_arbitrum_usdt.json'',
        ''tx_base_eth.json'', ''tx_base_usdc.json'', ''tx_base_usdt.json'',
        ''tx_optimism_eth.json'', ''tx_optimism_usdc.json'', ''tx_optimism_usdt.json'',
        ''tx_polygon_eth.json'', ''tx_polygon_usdc.json'', ''tx_polygon_usdt.json'']"
proof (intro conjI)
  show name: "filename k t = ''tx_'' @ k @ ''_'' @ lower (token t) @ ''.json''"
    by (rule filename_def)
  show "files w' (''tx_'' @ k @ ''_'' @ lower (token t) @ ''.json'') = Some (json_dump_indent2 (transaction nd t))"
    using emitted_file [OF assms] unfolding name .
  have "dom (files w') = dom (files w) \<union> fst ` set emitted"
    unfolding generate_tx_json_Inr(1) [OF assms(1)] by (rule dom_files_after)
  also have "fst ` set emitted = set (map (\<lambda>(k, nd, t). filename k t) records)"
    unfolding emitted_names [symmetric] by simp
  finally show "dom (files w') =
      dom (files w) \<union> (\<lambda>(k, nd, t). ''tx_'' @ k @ ''_'' @ lower (token t) @ ''.json'') ` set records"
    by (simp add: filename_def)
  show "map (\<lambda>(k, nd, t). ''tx_'' @ k @ ''_'' @ lower (token t) @ ''.json'') records =
       [''tx_arbitrum_eth.json'', ''tx_arbitrum_usdc.json'', ''tx_arbitrum_usdt.json'',
        ''tx_base_eth.json'', ''tx_base_usdc.json'', ''tx_base_usdt.json'',
        ''tx_optimism_eth.json'', ''tx_optimism_usdc.json'', ''tx_optimism_usdt.json'',
        ''tx_polygon_eth.json'', ''tx_polygon_usdc.json'', ''tx_polygon_usdt.json'']"
    using record_filenames by (simp add: filename_def)
qed

theorem emitted_filename_witness:
  "\<exists>w'. generate_tx_json fresh_world = Inr w' \<and>
     files w' ''tx_optimism_usdt.json'' =
       Some (json_dump_indent2 (transaction (snd (TRANSACTIONS ! 2)) (transactions (snd (TRANSACTIONS ! 2)) ! 2))) \<and>
     dom (files w') = (\<lambda>(k, nd, t). ''tx_'' @ k @ ''_'' @ lower (token t) @ ''.json'') ` set records"
proof -
  from generate_tx_json_fresh obtain w' where run: "generate_tx_json fresh_world = Inr w'" ..
  from emitted_filename [OF run optimism_usdt_record]
  have "files w' (''tx_'' @ ''optimism'' @ ''_'' @ lower (token (transactions (snd (TRANSACTIONS ! 2)) ! 2)) @ ''.json'') =
       Some (json_dump_indent2 (transaction (snd (TRANSACTIONS ! 2)) (transactions (snd (TRANSACTIONS ! 2)) ! 2)))"
    and "dom (files w') = dom (files fresh_world)
        \<union> (\<lambda>(k, nd, t). ''tx_'' @ k @ ''_'' @ lower (token t) @ ''.json'') ` set records"
    by blast+
  moreover have "lower (token (transactions (snd (TRANSACTIONS ! 2)) ! 2)) = ''usdt''"
    by (simp add: TRANSACTIONS_def lower_def lower_char_def)
  moreover have "dom (files fresh_world) = {}"
    by (simp add: fresh_world_def)
  ultimately show ?thesis using run by simp
qed

text \<open>
  C5: a second run of the file emitter after a first one leaves the directory as the
  first run left it; and any two runs that return, whatever the directory they
  started from, leave the same content in the file of every record.
\<close>

theorem generate_tx_json_idempotent:
  assumes "generate_tx_json w = Inr w1" and "generate_tx_json w1 = Inr w2"
    and "generate_tx_json v = Inr v1"
  shows "files w2 = files w1 \<and>
     (\<forall>(k, nd, t) \<in> set records.
        files w2 (filename k t) = files w1 (filename k t) \<and>
        files v1 (filename k t) = files w1 (filename k t) \<and>
        files w1 (filename k t) = Some (json_dump_indent2 (transaction nd t)))"
proof
  have "files w2 = files_after emitted (files_after emitted (files w))"
    unfolding generate_tx_json_Inr(1) [OF assms(2)] generate_tx_json_Inr(1) [OF assms(1)] ..
  also have "\<dots> = files_after emitted (files w)"
    by (rule files_after_idem)
  also have "\<dots> = files w1"
    unfolding generate_tx_json_Inr(1) [OF assms(1)] ..
  finally show same: "files w2 = files w1" .
  show "\<forall>(k, nd, t) \<in> set records.
        files w2 (filename k t) = files w1 (filename k t) \<and>
        files v1 (filename k t) = files w1 (filename k t) \<and>
        files w1 (filename k t) = Some (json_dump_indent2 (transaction nd t))"
  proof (clarify, intro conjI)
    fix k nd t
    assume r: "(k, nd, t) \<in> set records"
    show "files w2 (filename k t) = files w1 (filename k t)"
      unfolding same ..
    show "files v1 (filename k t) = files w1 (filename k t)"
      unfolding emitted_file [OF assms(1) r] emitted_file [OF assms(3) r] ..
    show "files w1 (filename k t) = Some (json_dump_indent2 (transaction nd t))"
      using assms(1) r by (rule emitted_file)
  qed
qed

theorem generate_tx_json_idempotent_witness:
  "\<exists>w1 w2. generate_tx_json fresh_world = Inr w1 \<and> generate_tx_json w1 = Inr w2 \<and>
     files w2 = files w1 \<and>
     files w2 ''tx_base_usdc.json'' = files w1 ''tx_base_usdc.json'' \<and>
     files w1 ''tx_base_usdc.json'' \<noteq> None"
proof -
  from generate_tx_json_fresh obtain w1 where run1: "generate_tx_json fresh_world = Inr w1" ..
  from generate_tx_json_again [OF run1] obtain w2 where run2: "generate_tx_json w1 = Inr w2" ..
  note both = generate_tx_json_idempotent [OF run1 run2 run1]
  from both have same: "files w2 = files w1" ..
  from both base_usdc_record
  have "files w1 (filename ''base'' (transactions (snd (TRANSACTIONS ! 1)) ! 1)) \<noteq> None"
    by fastforce
  then have "files w1 ''tx_base_usdc.json'' \<noteq> None"
    by (simp add: TRANSACTIONS_def filename_def lower_def lower_char_def)
  with run1 run2 same show ?thesis by metis
qed

text \<open>
  C6: the content of every file that the emitter writes parses as JSON, and encoding
  the parsed object again, with the same indentation and the keys in the order in
  which they were read, gives the content of the file back, byte for byte.
\<close>

theorem emitted_json_roundtrip:
  assumes "generate_tx_json w = Inr w'" and "(k, nd, t) \<in> set records"
  shows "\<exists>content obj.
     files w' (filename k t) = Some content \<and> json_loads content = Some obj \<and>
     json_dump_indent2 obj = content"
proof -
  have "files w' (filename k t) = Some (json_dump_indent2 (transaction nd t))"
    using assms by (rule emitted_file)
  moreover have "json_loads (json_dump_indent2 (transaction nd t)) = Some (transaction nd t)"
    using assms(2) by (rule records_roundtrip)
  ultimately show ?thesis by blast
qed

theorem emitted_json_roundtrip_witness:
  "\<exists>w'. generate_tx_json fresh_world = Inr w' \<and>
     (\<exists>content obj. files w' ''tx_base_usdc.json'' = Some content \<and>
        json_loads content = Some obj \<and> json_dump_indent2 obj = content)"
proof -
  from generate_tx_json_fresh obtain w' where run: "generate_tx_json fresh_world = Inr w'" ..
  have "filename ''base'' (transactions (snd (TRANSACTIONS ! 1)) ! 1) = ''tx_base_usdc.json''"
    by (simp add: TRANSACTIONS_def filename_def lower_def lower_char_def)
  with emitted_json_roundtrip [OF run base_usdc_record] run show ?thesis by metis
qed

text \<open>
  C9: the table has twelve records, one per pair of a network key and a token symbol,
  and their twelve file names are pairwise distinct; so after a run that returns,
  the file of each record holds the transaction of that record, not overwritten by
  the write for another record.
\<close>

theorem filenames_pairwise_distinct:
  "length records = 12 \<and>
   distinct (map (\<lambda>(k, nd, t). (k, token t)) records) \<and>
   distinct (map (\<lambda>(k, nd, t). filename k t) records) \<and>
   (\<forall>w w'. generate_tx_json w = Inr w' \<longrightarrow>
      (\<forall>(k, nd, t) \<in> set records.
         files w' (filename k t) = Some (json_dump_indent2 (transaction nd t))))"
proof (intro conjI allI impI)
  show "length records = 12"
    by (simp add: table_defs)
  show "distinct (map (\<lambda>(k, nd, t). (k, token t)) records)"
    by (simp add: table_defs)
  show "distinct (map (\<lambda>(k, nd, t). filename k t) records)"
    by (rule record_filenames_distinct)
next
  fix w w'
  assume "generate_tx_json w = Inr w'"
  then show "\<forall>(k, nd, t) \<in> set records.
      files w' (filename k t) = Some (json_dump_indent2 (transaction nd t))"
    by (auto intro: emitted_file)
qed

theorem filenames_pairwise_distinct_witness:
  "\<exists>w'. generate_tx_json fresh_world = Inr w' \<and>
     files w' ''tx_base_usdc.json'' =
       Some (json_dump_indent2 (transaction (snd (TRANSACTIONS ! 1)) (transactions (snd (TRANSACTIONS ! 1)) ! 1))) \<and>
     files w' ''tx_optimism_usdt.json'' =
       Some (json_dump_indent2 (transaction (snd (TRANSACTIONS ! 2)) (transactions (snd (TRANSACTIONS ! 2)) ! 2)))"
proof -
  from generate_tx_json_fresh obtain w' where run: "generate_tx_json fresh_world = Inr w'" ..
  from filenames_pairwise_distinct run
  have all: "\<forall>(k, nd, t) \<in> set records.
      files w' (filename k t) = Some (json_dump_indent2 (transaction nd t))"
    by blast
  have "files w' (filename ''base'' (transactions (snd (TRANSACTIONS ! 1)) ! 1)) =
       Some (json_dump_indent2 (transaction (snd (TRANSACTIONS ! 1)) (transactions (snd (TRANSACTIONS ! 1)) ! 1)))"
    using all base_usdc_record by fastforce
  moreover have "files w' (filename ''optimism'' (transactions (snd (TRANSACTIONS ! 2)) ! 2)) =
       Some (json_dump_indent2 (transaction (snd (TRANSACTIONS ! 2)) (transactions (snd (TRANSACTIONS ! 2)) ! 2)))"
    using all optimism_usdt_record by fastforce
  moreover have "filename ''base'' (transactions (snd (TRANSACTIONS ! 1)) ! 1) = ''tx_base_usdc.json''"
    and "filename ''optimism'' (transactions (snd (TRANSACTIONS ! 2)) ! 2) = ''tx_optimism_usdt.json''"
    by (simp_all add: TRANSACTIONS_def filename_def lower_def lower_char_def)
  ultimately show ?thesis using run by metis
qed

section \<open>The snippets of generate_curl_commands and generate_copy_paste\<close>

text \<open>
  C8: the curl snippet emitter writes no file. Its output is a headline, then for each
  network a line with its name followed by one block per record; the block of a
  record is a comment line and exactly one curl command, an HTTP POST to the
  placeholder \<open>YOUR_WALLET_API_ENDPOINT\<close> whose body parses as the JSON object with
  the contract address as \<open>to\<close>, the calldata of the record as \<open>data\<close> and \<open>"0x0"\<close> as
  \<open>value\<close>. So the output has as many curl commands as the table has records.
\<close>

theorem curl_emitter_post_commands:
  "files (generate_curl_commands w) = files w \<and>
   output_of generate_curl_commands w =
     [''\<newline>\<newline>'' @ replicate 70 (CHR ''=''),
      [CHR 0xF0, CHR 0x9F, CHR 0x94, CHR 0xA7] @ '' COMANDOS CURL PARA WALLETS QUE SUPORTAM API'',
      replicate 70 (CHR ''='')]
     @ concat (map (\<lambda>(k, nd). (''\<newline># '' @ name nd)
          # concat (map (\<lambda>t. output_of (generate_curl_commands_tx k nd t) w) (transactions nd))) TRANSACTIONS) \<and>
   length (filter is_curl_line (output_of generate_curl_commands w)) = length records \<and>
   (\<forall>(k, nd, t) \<in> set records.
      files (generate_curl_commands_tx k nd t w) = files w \<and>
      length (filter is_curl_line (output_of (generate_curl_commands_tx k nd t) w)) = 1 \<and>
      (\<exists>body.
         unlines (output_of (generate_curl_commands_tx k nd t) w) =
           ''\<newline># Habilitar '' @ token t @ '':\<newline>'' @ curl_post body ''YOUR_WALLET_API_ENDPOINT'' \<and>
         json_loads body =
           Some [(''to'', JStr CONTRACT_ADDRESS), (''data'', JStr (data t)), (''value'', JStr ''0x0'')]))"
proof (intro conjI)
  show "files (generate_curl_commands w) = files w"
    by (rule curl_files)
  show out: "output_of generate_curl_commands w =
     [''\<newline>\<newline>'' @ replicate 70 (CHR ''=''),
      [CHR 0xF0, CHR 0x9F, CHR 0x94, CHR 0xA7] @ '' COMANDOS CURL PARA WALLETS QUE SUPORTAM API'',
      replicate 70 (CHR ''='')]
     @ concat (map (\<lambda>(k, nd). (''\<newline># '' @ name nd)
          # concat (map (\<lambda>t. output_of (generate_curl_commands_tx k nd t) w) (transactions nd))) TRANSACTIONS)"
    by (rule output_ofI) (rule curl_stdout)
  have twelve: "length records = 12"
    by (simp add: table_defs)
  have headline: "filter is_curl_line
     [''\<newline>\<newline>'' @ replicate 70 (CHR ''=''),
      [CHR 0xF0, CHR 0x9F, CHR 0x94, CHR 0xA7] @ '' COMANDOS CURL PARA WALLETS QUE SUPORTAM API'',
      replicate 70 (CHR ''='')] = []"
    by (simp add: is_curl_line_def take_Suc_Cons numeral_eq_Suc)
  show "length (filter is_curl_line (output_of generate_curl_commands w)) = length records"
    unfolding out by (simp only: filter_append headline append_Nil curl_commands_count twelve)
  show "\<forall>(k, nd, t) \<in> set records.
      files (generate_curl_commands_tx k nd t w) = files w \<and>
      length (filter is_curl_line (output_of (generate_curl_commands_tx k nd t) w)) = 1 \<and>
      (\<exists>body.
         unlines (output_of (generate_curl_commands_tx k nd t) w) =
           ''\<newline># Habilitar '' @ token t @ '':\<newline>'' @ curl_post body ''YOUR_WALLET_API_ENDPOINT'' \<and>
         json_loads body =
           Some [(''to'', JStr CONTRACT_ADDRESS), (''data'', JStr (data t)), (''value'', JStr ''0x0'')])"
  proof (clarify, intro conjI exI)
    fix k nd t
    assume r: "(k, nd, t) \<in> set records"
    show "files (generate_curl_commands_tx k nd t w) = files w"
      by (rule curl_tx_files)
    show "length (filter is_curl_line (output_of (generate_curl_commands_tx k nd t) w)) = 1"
      by (rule curl_tx_one_command)
    show "unlines (output_of (generate_curl_commands_tx k nd t) w) =
        ''\<newline># Habilitar '' @ token t @ '':\<newline>'' @ curl_post (curl_body t) ''YOUR_WALLET_API_ENDPOINT''"
      by (rule curl_tx_unlines)
    show "json_loads (curl_body t) =
        Some [(''to'', JStr CONTRACT_ADDRESS), (''data'', JStr (data t)), (''value'', JStr ''0x0'')]"
      using r by (rule curl_body_parses)
  qed
qed

theorem curl_emitter_post_commands_witness:
  "\<exists>body.
     unlines (output_of (generate_curl_commands_tx ''base'' (snd (TRANSACTIONS ! 1))
         (transactions (snd (TRANSACTIONS ! 1)) ! 1)) fresh_world) =
       ''\<newline># Habilitar USDC:\<newline>'' @ curl_post body ''YOUR_WALLET_API_ENDPOINT'' \<and>
     json_loads body =
       Some [(''to'', JStr ''0x8B173c2E4C84b4bdD8c656F3d47Bc4259594Bd48''),
             (''data'', JStr ''0xeb0835bf000000000000000000000000833589fcd6edb6e08f4c7c32d4f71b54bda02913''),
             (''value'', JStr ''0x0'')]"
proof -
  let ?nd = "snd (TRANSACTIONS ! 1)"
  let ?t = "transactions ?nd ! 1"
  from curl_emitter_post_commands [of fresh_world] base_usdc_record
  obtain body where
    "unlines (output_of (generate_curl_commands_tx ''base'' ?nd ?t) fresh_world) =
       ''\<newline># Habilitar '' @ token ?t @ '':\<newline>'' @ curl_post body ''YOUR_WALLET_API_ENDPOINT''"
    and "json_loads body =
       Some [(''to'', JStr CONTRACT_ADDRESS), (''data'', JStr (data ?t)), (''value'', JStr ''0x0'')]"
    by fast
  moreover have "token ?t = ''USDC''"
    and "data ?t = ''0xeb0835bf000000000000000000000000833589fcd6edb6e08f4c7c32d4f71b54bda02913''"
    by (simp_all add: TRANSACTIONS_def)
  ultimately show ?thesis
    by (auto simp: CONTRACT_ADDRESS_def)
qed

text \<open>
  C10: the block that the console emitter and the curl emitter print for a record is
  made of the token symbol (in its first line, a comment), the contract address, the
  calldata and \<open>0x0\<close>; it is the same under any network key and network data, so the
  chain ID is no part of it. The curl emitter prints the chain ID nowhere, and the
  console emitter prints it only in the first line of a network, a comment.
\<close>

theorem snippets_without_chain_id:
  "output_of (generate_copy_paste_tx k nd t) w =
       [''// Habilitar '' @ token t @ '':'',
        ''await ethereum.request({'',
        ''  method: '' @ [squote] @ ''eth_sendTransaction'' @ [squote] @ '','',
        ''  params: [{'',
        ''    from: ethereum.selectedAddress,'',
        ''    to: '' @ [squote] @ CONTRACT_ADDRESS @ [squote] @ '','',
        ''    data: '' @ [squote] @ data t @ [squote] @ '','',
        ''    value: '' @ [squote] @ ''0x0'' @ [squote],
        ''  }]'',
        ''});'',
        []] \<and>
   output_of (generate_curl_commands_tx k nd t) w =
       [''\<newline># Habilitar '' @ token t @ '':'',
        ''curl -X POST -H '' @ [squote] @ ''Content-Type: application/json'' @ [squote] @ '' '' @ [backslash],
        ''  -d '' @ [squote] @ ''{'',
        ''    '' @ [dquote] @ ''to'' @ [dquote] @ '': '' @ [dquote] @ CONTRACT_ADDRESS @ [dquote] @ '','',
        ''    '' @ [dquote] @ ''data'' @ [dquote] @ '': '' @ [dquote] @ data t @ [dquote] @ '','',
        ''    '' @ [dquote] @ ''value'' @ [dquote] @ '': '' @ [dquote] @ ''0x0'' @ [dquote],
        ''  }'' @ [squote] @ '' '' @ [backslash],
        ''  YOUR_WALLET_API_ENDPOINT''] \<and>
   generate_copy_paste_tx k' nd' t w = generate_copy_paste_tx k nd t w \<and>
   generate_curl_commands_tx k' nd' t w = generate_curl_commands_tx k nd t w \<and>
   output_of (generate_curl_commands_network (k, nd\<lparr>chainId := c\<rparr>)) w =
     output_of (generate_curl_commands_network (k, nd)) w \<and>
   hd (output_of (generate_copy_paste_network (k, nd)) w) =
     ''\<newline>// '' @ name nd @ '' (Chain ID: '' @ str_int (chainId nd) @ '')'' \<and>
   tl (output_of (generate_copy_paste_network (k, nd\<lparr>chainId := c\<rparr>)) w) =
     tl (output_of (generate_copy_paste_network (k, nd)) w)"
proof (intro conjI)
  show "output_of (generate_copy_paste_tx k nd t) w =
       [''// Habilitar '' @ token t @ '':'',
        ''await ethereum.request({'',
        ''  method: '' @ [squote] @ ''eth_sendTransaction'' @ [squote] @ '','',
        ''  params: [{'',
        ''    from: ethereum.selectedAddress,'',
        ''    to: '' @ [squote] @ CONTRACT_ADDRESS @ [squote] @ '','',
        ''    data: '' @ [squote] @ data t @ [squote] @ '','',
        ''    value: '' @ [squote] @ ''0x0'' @ [squote],
        ''  }]'',
        ''});'',
        []]"
    by (rule output_ofI) (rule copy_paste_tx_stdout)
  show "output_of (generate_curl_commands_tx k nd t) w =
       [''\<newline># Habilitar '' @ token t @ '':'',
        ''curl -X POST -H '' @ [squote] @ ''Content-Type: application/json'' @ [squote] @ '' '' @ [backslash],
        ''  -d '' @ [squote] @ ''{'',
        ''    '' @ [dquote] @ ''to'' @ [dquote] @ '': '' @ [dquote] @ CONTRACT_ADDRESS @ [dquote] @ '','',
        ''    '' @ [dquote] @ ''data'' @ [dquote] @ '': '' @ [dquote] @ data t @ [dquote] @ '','',
        ''    '' @ [dquote] @ ''value'' @ [dquote] @ '': '' @ [dquote] @ ''0x0'' @ [dquote],
        ''  }'' @ [squote] @ '' '' @ [backslash],
        ''  YOUR_WALLET_API_ENDPOINT'']"
    by (rule output_ofI) (rule curl_tx_stdout)
  show "generate_copy_paste_tx k' nd' t w = generate_copy_paste_tx k nd t w"
    by (simp only: generate_copy_paste_tx_def)
  show "generate_curl_commands_tx k' nd' t w = generate_curl_commands_tx k nd t w"
    by (simp only: generate_curl_commands_tx_def)
  have curl: "\<And>nd. output_of (generate_curl_commands_network (k, nd)) w =
      (''\<newline># '' @ name nd) # concat (map (\<lambda>t. output_of (generate_curl_commands_tx k nd t) w) (transactions nd))"
    by (rule output_ofI) (rule curl_network_stdout)
  have "\<And>t. output_of (generate_curl_commands_tx k (nd\<lparr>chainId := c\<rparr>) t) w =
      output_of (generate_curl_commands_tx k nd t) w"
    by (simp only: output_of_def generate_curl_commands_tx_def)
  then show "output_of (generate_curl_commands_network (k, nd\<lparr>chainId := c\<rparr>)) w =
      output_of (generate_curl_commands_network (k, nd)) w"
    unfolding curl by simp
  have console: "\<And>nd. output_of (generate_copy_paste_network (k, nd)) w =
      [''\<newline>// '' @ name nd @ '' (Chain ID: '' @ str_int (chainId nd) @ '')'',
       ''// Certifique-se de estar na rede correta!\<newline>'']
      @ concat (map (\<lambda>t. output_of (generate_copy_paste_tx k nd t) w) (transactions nd))"
    by (rule output_ofI) (rule copy_paste_network_stdout)
  show "hd (output_of (generate_copy_paste_network (k, nd)) w) =
      ''\<newline>// '' @ name nd @ '' (Chain ID: '' @ str_int (chainId nd) @ '')''"
    unfolding console by simp
  have "\<And>t. output_of (generate_copy_paste_tx k (nd\<lparr>chainId := c\<rparr>) t) w =
      output_of (generate_copy_paste_tx k nd t) w"
    by (simp only: output_of_def generate_copy_paste_tx_def)
  then show "tl (output_of (generate_copy_paste_network (k, nd\<lparr>chainId := c\<rparr>)) w) =
      tl (output_of (generate_copy_paste_network (k, nd)) w)"
    unfolding console by simp
qed

section \<open>The calldata strings\<close>

text \<open>
  C7: every calldata string of the table has 74 characters: \<open>0x\<close>, the selector
  \<open>eb0835bf\<close>, then 64 hex digits; so all of them have the same length and the same
  selector.
\<close>

theorem calldata_fixed_shape:
  "list_all (\<lambda>(network_key, nd, t). calldata_shape (data t)) records \<and>
   list_all (\<lambda>(network_key, nd, t). list_all (\<lambda>(network_key', nd', t').
       length (data t) = length (data t') \<and> selector_of (data t) = selector_of (data t')) records) records"
  by (simp add: records_def TRANSACTIONS_def calldata_shape_def selector_of_def is_hex_digit_def)

text \<open>
  C3, as stated, fails: the records of \<open>arbitrum\<close>/\<open>ETH\<close> and \<open>base\<close>/\<open>ETH\<close> are two
  distinct pairs of the table with the same calldata string.
\<close>

theorem calldata_shared_counterexample:
  "records ! 0 \<in> set records \<and> records ! 3 \<in> set records \<and>
   fst (records ! 0) = ''arbitrum'' \<and> token (snd (snd (records ! 0))) = ''ETH'' \<and>
   fst (records ! 3) = ''base'' \<and> token (snd (snd (records ! 3))) = ''ETH'' \<and>
   (fst (records ! 0), token (snd (snd (records ! 0)))) \<noteq> (fst (records ! 3), token (snd (snd (records ! 3)))) \<and>
   data (snd (snd (records ! 0))) = data (snd (snd (records ! 3)))"
  by (simp add: table_defs)

lemma calldata_pairs_all:
  "list_all (\<lambda>(k, nd, t). list_all (\<lambda>(k', nd', t').
      ((k, token t) = (k', token t') \<longrightarrow> data t = data t') \<and>
      ((k, token t) \<noteq> (k', token t') \<and> data t = data t' \<longrightarrow> token t = ''ETH'' \<and> token t' = ''ETH''))
    records) records"
  by (simp add: table_defs)

lemma eth_calldata_all:
  "list_all (\<lambda>(k, nd, t). token t = ''ETH'' \<longrightarrow>
      data t = ''0xeb0835bf0000000000000000000000000000000000000000000000000000000000000000'') records"
  by (simp add: table_defs)

lemma zero_address_calldata:
  "''0xeb0835bf0000000000000000000000000000000000000000000000000000000000000000''
     = ''0xeb0835bf'' @ replicate 64 (CHR ''0'')"
  by (simp add: numeral_eq_Suc)

text \<open>
  C3, amended: every record has the same recipient, the constant contract address, and
  the same value, \<open>0x0\<close>; the calldata string is determined by the pair of network key
  and token symbol, and two distinct pairs have the same calldata string only when
  both have the token symbol \<open>ETH\<close>. The table has four \<open>ETH\<close> records, one for each
  of the four networks, and all of them have one calldata string: the selector
  followed by the zero address, that is by 64 zeros.
\<close>

theorem calldata_unique_except_eth:
  "(\<forall>(k, nd, t) \<in> set records. \<forall>(k', nd', t') \<in> set records.
     map_of (transaction nd t) ''to'' = Some (JStr CONTRACT_ADDRESS) \<and>
     map_of (transaction nd' t') ''to'' = map_of (transaction nd t) ''to'' \<and>
     map_of (transaction nd t) ''value'' = Some (JStr ''0x0'') \<and>
     map_of (transaction nd' t') ''value'' = map_of (transaction nd t) ''value'' \<and>
     ((k, token t) = (k', token t') \<longrightarrow> data t = data t') \<and>
     ((k, token t) \<noteq> (k', token t') \<and> data t = data t' \<longrightarrow> token t = ''ETH'' \<and> token t' = ''ETH'')) \<and>
   (\<forall>(k, nd, t) \<in> set records. \<forall>(k', nd', t') \<in> set records.
     token t = ''ETH'' \<and> token t' = ''ETH'' \<longrightarrow>
       data t = data t' \<and>
       data t = ''0xeb0835bf0000000000000000000000000000000000000000000000000000000000000000'' \<and>
       data t = ''0xeb0835bf'' @ replicate 64 (CHR ''0'')) \<and>
   map (\<lambda>(k, nd, t). (k, token t)) (filter (\<lambda>(k, nd, t). token t = ''ETH'') records) =
     [(''arbitrum'', ''ETH''), (''base'', ''ETH''), (''optimism'', ''ETH''), (''polygon'', ''ETH'')] \<and>
   map fst TRANSACTIONS = [''arbitrum'', ''base'', ''optimism'', ''polygon'']"
proof (intro conjI)
  show "\<forall>(k, nd, t) \<in> set records. \<forall>(k', nd', t') \<in> set records.
     map_of (transaction nd t) ''to'' = Some (JStr CONTRACT_ADDRESS) \<and>
     map_of (transaction nd' t') ''to'' = map_of (transaction nd t) ''to'' \<and>
     map_of (transaction nd t) ''value'' = Some (JStr ''0x0'') \<and>
     map_of (transaction nd' t') ''value'' = map_of (transaction nd t) ''value'' \<and>
     ((k, token t) = (k', token t') \<longrightarrow> data t = data t') \<and>
     ((k, token t) \<noteq> (k', token t') \<and> data t = data t' \<longrightarrow> token t = ''ETH'' \<and> token t' = ''ETH'')"
  proof (clarify, intro conjI)
    fix k nd t k' nd' t'
    assume r: "(k, nd, t) \<in> set records" and r': "(k', nd', t') \<in> set records"
    show "map_of (transaction nd t) ''to'' = Some (JStr CONTRACT_ADDRESS)"
      and "map_of (transaction nd' t') ''to'' = map_of (transaction nd t) ''to''"
      and "map_of (transaction nd t) ''value'' = Some (JStr ''0x0'')"
      and "map_of (transaction nd' t') ''value'' = map_of (transaction nd t) ''value''"
      by (simp_all add: transaction_def)
    from calldata_pairs_all r r'
    have both: "((k, token t) = (k', token t') \<longrightarrow> data t = data t') \<and>
        ((k, token t) \<noteq> (k', token t') \<and> data t = data t' \<longrightarrow> token t = ''ETH'' \<and> token t' = ''ETH'')"
      unfolding list_all_iff by fast
    from both show "(k, token t) = (k', token t') \<longrightarrow> data t = data t'" ..
    from both show "(k, token t) \<noteq> (k', token t') \<and> data t = data t' \<longrightarrow> token t = ''ETH'' \<and> token t' = ''ETH''" ..
  qed
  show "\<forall>(k, nd, t) \<in> set records. \<forall>(k', nd', t') \<in> set records.
     token t = ''ETH'' \<and> token t' = ''ETH'' \<longrightarrow>
       data t = data t' \<and>
       data t = ''0xeb0835bf0000000000000000000000000000000000000000000000000000000000000000'' \<and>
       data t = ''0xeb0835bf'' @ replicate 64 (CHR ''0'')"
  proof (clarify, intro conjI)
    fix k nd t k' nd' t'
    assume r: "(k, nd, t) \<in> set records" and r': "(k', nd', t') \<in> set records"
      and eth: "token t = ''ETH''" and eth': "token t' = ''ETH''"
    from eth_calldata_all r eth
    show zero: "data t = ''0xeb0835bf0000000000000000000000000000000000000000000000000000000000000000''"
      unfolding list_all_iff by fast
    from eth_calldata_all r' eth'
    have "data t' = ''0xeb0835bf0000000000000000000000000000000000000000000000000000000000000000''"
      unfolding list_all_iff by fast
    with zero show "data t = data t'" by (rule trans [OF _ sym])
    from zero show "data t = ''0xeb0835bf'' @ replicate 64 (CHR ''0'')"
      unfolding zero_address_calldata .
  qed
  show "map (\<lambda>(k, nd, t). (k, token t)) (filter (\<lambda>(k, nd, t). token t = ''ETH'') records) =
     [(''arbitrum'', ''ETH''), (''base'', ''ETH''), (''optimism'', ''ETH''), (''polygon'', ''ETH'')]"
    by (simp add: table_defs)
  show "map fst TRANSACTIONS = [''arbitrum'', ''base'', ''optimism'', ''polygon'']"
    by (simp add: TRANSACTIONS_def)
qed

theorem calldata_unique_except_eth_witness:
  "token (transactions (snd (TRANSACTIONS ! 0)) ! 0) = ''ETH'' \<and>
   token (transactions (snd (TRANSACTIONS ! 1)) ! 0) = ''ETH'' \<and>
   map_of (transaction (snd (TRANSACTIONS ! 0)) (transactions (snd (TRANSACTIONS ! 0)) ! 0)) ''to''
     = Some (JStr CONTRACT_ADDRESS) \<and>
   data (transactions (snd (TRANSACTIONS ! 2)) ! 0) = data (transactions (snd (TRANSACTIONS ! 3)) ! 0) \<and>
   data (transactions (snd (TRANSACTIONS ! 2)) ! 0) = ''0xeb0835bf'' @ replicate 64 (CHR ''0'')"
proof -
  let ?r = "(''arbitrum'', snd (TRANSACTIONS ! 0), transactions (snd (TRANSACTIONS ! 0)) ! 0)"
  let ?r' = "(''base'', snd (TRANSACTIONS ! 1), transactions (snd (TRANSACTIONS ! 1)) ! 0)"
  let ?o = "(''optimism'', snd (TRANSACTIONS ! 2), transactions (snd (TRANSACTIONS ! 2)) ! 0)"
  let ?p = "(''polygon'', snd (TRANSACTIONS ! 3), transactions (snd (TRANSACTIONS ! 3)) ! 0)"
  have r: "?r \<in> set records" and r': "?r' \<in> set records"
    and ro: "?o \<in> set records" and rp: "?p \<in> set records"
    by (simp_all add: table_defs)
  have differ: "(''arbitrum'', token (transactions (snd (TRANSACTIONS ! 0)) ! 0))
      \<noteq> (''base'', token (transactions (snd (TRANSACTIONS ! 1)) ! 0))"
    by simp
  have same: "data (transactions (snd (TRANSACTIONS ! 0)) ! 0) = data (transactions (snd (TRANSACTIONS ! 1)) ! 0)"
    by (simp add: TRANSACTIONS_def)
  have eth: "token (transactions (snd (TRANSACTIONS ! 2)) ! 0) = ''ETH''"
    "token (transactions (snd (TRANSACTIONS ! 3)) ! 0) = ''ETH''"
    by (simp_all add: TRANSACTIONS_def)
  note whole = calldata_unique_except_eth
  from whole have pairs: "\<forall>(k, nd, t) \<in> set records. \<forall>(k', nd', t') \<in> set records.
     map_of (transaction nd t) ''to'' = Some (JStr CONTRACT_ADDRESS) \<and>
     map_of (transaction nd' t') ''to'' = map_of (transaction nd t) ''to'' \<and>
     map_of (transaction nd t) ''value'' = Some (JStr ''0x0'') \<and>
     map_of (transaction nd' t') ''value'' = map_of (transaction nd t) ''value'' \<and>
     ((k, token t) = (k', token t') \<longrightarrow> data t = data t') \<and>
     ((k, token t) \<noteq> (k', token t') \<and> data t = data t' \<longrightarrow> token t = ''ETH'' \<and> token t' = ''ETH'')"
    by (rule conjunct1)
  from whole have shared: "\<forall>(k, nd, t) \<in> set records. \<forall>(k', nd', t') \<in> set records.
     token t = ''ETH'' \<and> token t' = ''ETH'' \<longrightarrow>
       data t = data t' \<and>
       data t = ''0xeb0835bf0000000000000000000000000000000000000000000000000000000000000000'' \<and>
       data t = ''0xeb0835bf'' @ replicate 64 (CHR ''0'')"
    by (rule conjunct1 [OF conjunct2])
  from pairs r r' differ same
  have "token (transactions (snd (TRANSACTIONS ! 0)) ! 0) = ''ETH'' \<and>
     token (transactions (snd (TRANSACTIONS ! 1)) ! 0) = ''ETH'' \<and>
     map_of (transaction (snd (TRANSACTIONS ! 0)) (transactions (snd (TRANSACTIONS ! 0)) ! 0)) ''to''
       = Some (JStr CONTRACT_ADDRESS)"
    by fast
  moreover from shared ro rp eth
  have "data (transactions (snd (TRANSACTIONS ! 2)) ! 0) = data (transactions (snd (TRANSACTIONS ! 3)) ! 0) \<and>
     data (transactions (snd (TRANSACTIONS ! 2)) ! 0) = ''0xeb0835bf'' @ replicate 64 (CHR ''0'')"
    by fast
  ultimately show ?thesis by blast
qed

end
